theory Spec2Isabelle
  imports Main
begin

section \<open>Python strings and POSIX paths used by the import hook\<close>

text \<open>
  The module \<^verbatim>\<open>xdsl/__init__.py\<close> installs a meta path finder
  (\<^verbatim>\<open>IRDLDialectFinder\<close>) and a loader (\<^verbatim>\<open>IRDLDialectLoader\<close>) for
  \<^verbatim>\<open>.irdl\<close> files. Both manipulate names and paths with a handful of string
  functions of Python's standard library, which are embedded first. Strings are
  lists of characters. Case mapping is computed for strings of ASCII characters; for a
  string with any other character it is a parameter, the interpreter's Unicode tables.
\<close>

type_synonym path = string

definition newline :: char where
  "newline = CHR 0x0A"

definition dquote :: char where
  "dquote = CHR 0x22"

text \<open>\<^verbatim>\<open>str.split(sep)\<close> for a one-character separator: never the empty list.\<close>

fun split_on :: "char \<Rightarrow> string \<Rightarrow> string list" where
  "split_on c [] = [[]]"
| "split_on c (x # xs) =
     (if x = c then [] # split_on c xs
      else (case split_on c xs of
              [] \<Rightarrow> [[x]]
            | h # t \<Rightarrow> (x # h) # t))"

text \<open>\<^verbatim>\<open>str.rfind(c)\<close>: the index of the last occurrence, \<open>-1\<close> when there is none.\<close>

fun rfind :: "string \<Rightarrow> char \<Rightarrow> int" where
  "rfind [] c = - 1"
| "rfind (x # xs) c =
     (let r = rfind xs c
      in if 0 \<le> r then r + 1 else if x = c then 0 else - 1)"

definition rstrip :: "char \<Rightarrow> string \<Rightarrow> string" where
  "rstrip c s = rev (dropWhile (\<lambda>x. x = c) (rev s))"

definition is_ascii :: "char \<Rightarrow> bool" where
  "is_ascii c = ((of_char c :: nat) < 128)"

definition is_lower :: "char \<Rightarrow> bool" where
  "is_lower c = (97 \<le> (of_char c :: nat) \<and> (of_char c :: nat) \<le> 122)"

definition is_upper :: "char \<Rightarrow> bool" where
  "is_upper c = (65 \<le> (of_char c :: nat) \<and> (of_char c :: nat) \<le> 90)"

definition to_upper :: "char \<Rightarrow> char" where
  "to_upper c = (if is_lower c then char_of ((of_char c :: nat) - 32) else c)"

definition to_lower :: "char \<Rightarrow> char" where
  "to_lower c = (if is_upper c then char_of ((of_char c :: nat) + 32) else c)"

text \<open>
  \<^verbatim>\<open>str.capitalize()\<close>: "return a copy of the string with its first character
  capitalized and the rest lowercased"; the empty string stays empty. On a string of
  ASCII characters that is the first letter in upper case and the other letters in
  lower case. On a string with a character outside ASCII the result comes from the
  Unicode case tables (title case, characters that map to several, context rules),
  which are not embedded: it is whatever the parameter \<open>unicode\<close> gives.
\<close>

definition capitalize :: "(string \<Rightarrow> string) \<Rightarrow> string \<Rightarrow> string" where
  "capitalize unicode s =
     (if list_all is_ascii s
      then (case s of [] \<Rightarrow> [] | c # cs \<Rightarrow> to_upper c # map to_lower cs)
      else unicode s)"

text \<open>\<^verbatim>\<open>posixpath.isabs\<close>: the path starts with a slash.\<close>

definition isabs :: "path \<Rightarrow> bool" where
  "isabs p = (case p of [] \<Rightarrow> False | c # _ \<Rightarrow> c = CHR ''/'')"

text \<open>
  \<^verbatim>\<open>posixpath.join(a, b)\<close> with one component \<open>b\<close>: an absolute \<open>b\<close> replaces
  \<open>a\<close>; otherwise the two are concatenated, with a slash between them unless \<open>a\<close> is
  empty or already ends with one.
\<close>

definition join :: "path \<Rightarrow> path \<Rightarrow> path" where
  "join a b =
     (if isabs b then b
      else if a = [] \<or> last a = CHR ''/'' then a @ b
      else a @ ''/'' @ b)"

text \<open>\<^verbatim>\<open>posixpath.basename\<close>: what follows the last slash.\<close>

definition basename :: "path \<Rightarrow> path" where
  "basename p = drop (nat (rfind p (CHR ''/'') + 1)) p"

text \<open>
  \<^verbatim>\<open>posixpath.dirname\<close>: what precedes the last slash, included, with the trailing
  slashes removed unless the head consists of slashes only.
\<close>

definition dirname :: "path \<Rightarrow> path" where
  "dirname p =
     (let head = take (nat (rfind p (CHR ''/'') + 1)) p
      in if head \<noteq> [] \<and> head \<noteq> replicate (length head) (CHR ''/'')
         then rstrip (CHR ''/'') head else head)"

text \<open>
  \<^verbatim>\<open>posixpath.splitext\<close>: the extension starts at the last dot of the last
  component, provided some character other than a dot precedes it there.
\<close>

definition splitext :: "path \<Rightarrow> path \<times> string" where
  "splitext p =
     (let sepIndex = rfind p (CHR ''/'');
          dotIndex = rfind p (CHR ''.'')
      in if sepIndex < dotIndex \<and>
            list_ex (\<lambda>c. c \<noteq> CHR ''.'') (take (nat (dotIndex - (sepIndex + 1))) (drop (nat (sepIndex + 1)) p))
         then (take (nat dotIndex) p, drop (nat dotIndex) p)
         else (p, []))"

section \<open>Objects of the import system\<close>

text \<open>
  \<^verbatim>\<open>IRDLDialectLoader.__init__\<close> stores the module name and the path it is given.
\<close>

record loader =
  loader_module_name :: string
  loader_path :: path

definition IRDLDialectLoader :: "string \<Rightarrow> path \<Rightarrow> loader" where
  "IRDLDialectLoader name p = \<lparr>loader_module_name = name, loader_path = p\<rparr>"

text \<open>
  A \<^verbatim>\<open>ModuleSpec\<close> as \<^verbatim>\<open>importlib.util.spec_from_file_location\<close> fills it: the
  name, the loader, and the origin. The standard library (CPython 3.10 and later, the
  versions the package supports) joins a relative location to the current directory,
  and keeps the location as it is when \<^verbatim>\<open>os.getcwd()\<close> raises; the loader keeps the
  path it was built with. The current directory is \<^verbatim>\<open>None\<close> when it has been
  removed, the case in which \<^verbatim>\<open>os.getcwd()\<close> raises.
\<close>

record module_spec =
  spec_name :: string
  spec_loader :: loader
  spec_origin :: path

definition spec_from_file_location ::
  "path option \<Rightarrow> string \<Rightarrow> path \<Rightarrow> loader \<Rightarrow> module_spec" where
  "spec_from_file_location cwd name location ld =
     \<lparr>spec_name = name, spec_loader = ld,
      spec_origin =
        (if isabs location then location
         else (case cwd of None \<Rightarrow> location | Some c \<Rightarrow> join c location))\<rparr>"

text \<open>A module held by \<^verbatim>\<open>sys.modules\<close>, seen through its \<^verbatim>\<open>__spec__\<close> attribute,
  which is a \<^verbatim>\<open>ModuleSpec\<close> or \<^verbatim>\<open>None\<close>.\<close>

record cached_module =
  dunder_spec :: "module_spec option"

text \<open>
  What the code does to its surroundings is recorded as a trace of events: existence
  checks, files opened for reading or writing, text written, files closed, and runs of
  the IRDL parser.
\<close>

datatype event =
    IsFile path
  | OpenRead path
  | ParseModule path
  | OpenWrite path
  | WriteText path string
  | CloseFile path

text \<open>
  The process state: \<^verbatim>\<open>sys.modules\<close>, the current directory (\<^verbatim>\<open>None\<close> when it
  has been removed), the file system, and the trace. The file system is a parameter:
  the operating system is given by the functions below, whatever they do. A file is
  opened for reading (\<open>os_open_read\<close>), read (\<open>os_read\<close>) and closed
  (\<open>os_close_read\<close>), none of which changes the file system; or opened for writing,
  written and closed, each of which may.
\<close>

record 'fs world =
  sys_modules :: "string \<rightharpoonup> cached_module"
  cwd :: "path option"
  fs :: 'fs
  trace :: "event list"

datatype exn = AssertionError | OSError string | Raised string

record 'fs os =
  os_isfile :: "'fs \<Rightarrow> path \<Rightarrow> bool"
  os_open_read :: "'fs \<Rightarrow> path \<Rightarrow> exn option"
  os_read :: "'fs \<Rightarrow> path \<Rightarrow> exn + string"
  os_close_read :: "'fs \<Rightarrow> path \<Rightarrow> exn option"
  os_open_write :: "'fs \<Rightarrow> path \<Rightarrow> exn + 'fs"
  os_write :: "'fs \<Rightarrow> path \<Rightarrow> string \<Rightarrow> exn option \<times> 'fs"
  os_close_write :: "'fs \<Rightarrow> path \<Rightarrow> exn option \<times> 'fs"

text \<open>\<^verbatim>\<open>os.getcwd()\<close>: the current directory, or \<^verbatim>\<open>FileNotFoundError\<close> when it
  has been removed.\<close>

definition getcwd :: "'fs world \<Rightarrow> exn + path" where
  "getcwd w = (case cwd w of None \<Rightarrow> Inl (OSError ''FileNotFoundError'') | Some c \<Rightarrow> Inr c)"

definition log_event :: "event \<Rightarrow> 'fs world \<Rightarrow> 'fs world" where
  "log_event e w = w\<lparr>trace := trace w @ [e]\<rparr>"

section \<open>The finder\<close>

text \<open>
  The loop \<^verbatim>\<open>for entry in path\<close> of \<^verbatim>\<open>find_spec\<close>: each entry is joined with the
  file name and tested with \<^verbatim>\<open>os.path.isfile\<close>; the first hit returns a spec whose
  loader is built from the joined path, and an exhausted list returns \<^verbatim>\<open>None\<close>.
\<close>

fun search_entries ::
  "'fs os \<Rightarrow> 'fs world \<Rightarrow> string \<Rightarrow> string \<Rightarrow> path list \<Rightarrow> module_spec option \<times> 'fs world" where
  "search_entries os w fullname filename [] = (None, w)"
| "search_entries os w fullname filename (entry # rest) =
     (let potential_path = join entry filename;
          w' = log_event (IsFile potential_path) w
      in if os_isfile os (fs w) potential_path
         then (Some (spec_from_file_location (cwd w) fullname potential_path
                       (IRDLDialectLoader fullname potential_path)), w')
         else search_entries os w' fullname filename rest)"

text \<open>
  \<^verbatim>\<open>IRDLDialectFinder.find_spec(fullname, path)\<close>. A name in \<^verbatim>\<open>sys.modules\<close>
  returns the cached module's \<^verbatim>\<open>__spec__\<close>. Otherwise the file name is the last
  dot-separated part of the name followed by \<^verbatim>\<open>.irdl\<close>, and the entries searched are
  those of \<open>path\<close>, or the current directory alone when \<open>path\<close> is \<^verbatim>\<open>None\<close>; the
  call \<^verbatim>\<open>os.getcwd()\<close> made then is not guarded, so its exception is the
  exception of \<open>find_spec\<close>. The result is the exception raised or the value
  returned. (\<^verbatim>\<open>split\<close> never returns the empty list, see \<open>split_on_not_Nil\<close>,
  so the index \<open>-1\<close> is always in range.)
\<close>

definition find_spec ::
  "'fs os \<Rightarrow> 'fs world \<Rightarrow> string \<Rightarrow> path list option \<Rightarrow>
     (exn + module_spec option) \<times> 'fs world" where
  "find_spec os w fullname path =
     (case sys_modules w fullname of
        Some m \<Rightarrow> (Inr (dunder_spec m), w)
      | None \<Rightarrow>
          (let filename = last (split_on (CHR ''.'') fullname) @ ''.irdl''
           in case (case path of
                      None \<Rightarrow> (case getcwd w of Inl e \<Rightarrow> Inl e | Inr c \<Rightarrow> Inr [c])
                    | Some p \<Rightarrow> Inr p) of
                Inl e \<Rightarrow> (Inl e, w)
              | Inr path' \<Rightarrow>
                  (case search_entries os w fullname filename path' of
                     (r, w') \<Rightarrow> (Inr r, w'))))"

section \<open>The loader\<close>

text \<open>
  The classes a dialect exposes are Python classes: each has a \<^verbatim>\<open>__name__\<close>, and
  an identity of its own (here a number). A \<^verbatim>\<open>Dialect\<close> has a name, its attribute
  classes and its operation classes, each in the order the dialect yields them.
\<close>

record pyclass =
  dunder_name :: string
  class_id :: nat

record dialect =
  name :: string
  attributes :: "pyclass list"
  operations :: "pyclass list"

datatype entity = AttributeClass pyclass | OperationClass pyclass

fun entity_name :: "entity \<Rightarrow> string" where
  "entity_name (AttributeClass c) = dunder_name c"
| "entity_name (OperationClass c) = dunder_name c"

text \<open>
  The values a module attribute can hold: a class of the dialect, the dialect itself,
  or any other Python object (one the module held before the load).
\<close>

datatype pyobj = Entity entity | DialectObject dialect | Object nat

type_synonym namespace = "string \<rightharpoonup> pyobj"

definition setattr :: "namespace \<Rightarrow> string \<Rightarrow> pyobj \<Rightarrow> namespace" where
  "setattr module k v = module(k \<mapsto> v)"

text \<open>
  The parts of xDSL the loader calls are parameters: the parser (with the context
  that registers every dialect), \<^verbatim>\<open>SymbolTable.lookup_symbol\<close> (an operation or
  \<^verbatim>\<open>None\<close>), the test \<^verbatim>\<open>isinstance(_, DialectOp)\<close>, \<^verbatim>\<open>make_dialect\<close> and the stub
  generator. Each may raise. \<open>debug\<close> is Python's \<^verbatim>\<open>__debug__\<close>: \<^verbatim>\<open>assert\<close>
  statements run unless the interpreter was started with \<^verbatim>\<open>-O\<close>.
  \<open>unicode_capitalize\<close> is \<^verbatim>\<open>str.capitalize\<close> on the strings that have a character
  outside ASCII, by the interpreter's Unicode tables.
\<close>

record ('u, 'n) env =
  parse_module :: "string \<Rightarrow> path \<Rightarrow> exn + 'u"
  lookup_symbol :: "'u \<Rightarrow> string \<Rightarrow> 'n option"
  isinstance_DialectOp :: "'n \<Rightarrow> bool"
  make_dialect :: "'n option \<Rightarrow> exn + dialect"
  generate_dialect_stubs :: "dialect \<Rightarrow> exn + string"
  debug :: bool
  unicode_capitalize :: "string \<Rightarrow> string"

text \<open>The text of the first \<^verbatim>\<open>print\<close>: a docstring naming the source path.\<close>

definition stub_header :: "path \<Rightarrow> string" where
  "stub_header p =
     [dquote, dquote, dquote, newline] @
     ''This file is automatically generated by xDSL and not meant to be modified.'' @
     [newline, newline] @ ''It was generated from '' @ p @ [newline] @
     [dquote, dquote, dquote, newline]"

text \<open>\<^verbatim>\<open>print(text, file=stubfile)\<close>: the text and a newline are written.\<close>

definition print_to ::
  "'fs os \<Rightarrow> path \<Rightarrow> string \<Rightarrow> 'fs world \<Rightarrow> exn option \<times> 'fs world" where
  "print_to os p text w =
     (case os_write os (fs w) p (text @ [newline]) of
        (r, fs') \<Rightarrow> (r, (log_event (WriteText p (text @ [newline])) w)\<lparr>fs := fs'\<rparr>))"

text \<open>
  The body of \<^verbatim>\<open>with open(..., "w") as stubfile\<close>: the header is printed, then the
  stubs are generated and printed.
\<close>

definition stub_body ::
  "'fs os \<Rightarrow> ('u, 'n) env \<Rightarrow> path \<Rightarrow> path \<Rightarrow> dialect \<Rightarrow> 'fs world \<Rightarrow> exn option \<times> 'fs world" where
  "stub_body os env src stub d w =
     (case print_to os stub (stub_header src) w of
        (Some e, w1) \<Rightarrow> (Some e, w1)
      | (None, w1) \<Rightarrow>
          (case generate_dialect_stubs env d of
             Inl e \<Rightarrow> (Some e, w1)
           | Inr text \<Rightarrow> print_to os stub text w1))"

text \<open>
  The \<^verbatim>\<open>with\<close> statement around it: a failing \<^verbatim>\<open>open\<close> raises before the body; the
  file is closed on the way out of the body, normal or not, and an exception of the
  closing replaces the one of the body.
\<close>

definition write_stub ::
  "'fs os \<Rightarrow> ('u, 'n) env \<Rightarrow> path \<Rightarrow> path \<Rightarrow> dialect \<Rightarrow> 'fs world \<Rightarrow> exn option \<times> 'fs world" where
  "write_stub os env src stub d w =
     (let w0 = log_event (OpenWrite stub) w
      in case os_open_write os (fs w0) stub of
           Inl e \<Rightarrow> (Some e, w0)
         | Inr fs1 \<Rightarrow>
             (case stub_body os env src stub d (w0\<lparr>fs := fs1\<rparr>) of
                (r, w2) \<Rightarrow>
                  (case os_close_write os (fs w2) stub of
                     (c, fs3) \<Rightarrow>
                       ((case c of Some e \<Rightarrow> Some e | None \<Rightarrow> r),
                        (log_event (CloseFile stub) w2)\<lparr>fs := fs3\<rparr>))))"

text \<open>
  The loop \<^verbatim>\<open>for obj in chain(dialect.attributes, dialect.operations)\<close> with its
  \<^verbatim>\<open>setattr(module, obj.__name__, obj)\<close>, and the last \<^verbatim>\<open>setattr\<close>, which binds
  the dialect under its capitalized name.
\<close>

definition chain :: "dialect \<Rightarrow> entity list" where
  "chain d = map AttributeClass (attributes d) @ map OperationClass (operations d)"

fun bind_entities :: "entity list \<Rightarrow> namespace \<Rightarrow> namespace" where
  "bind_entities [] module = module"
| "bind_entities (obj # objs) module =
     bind_entities objs (setattr module (entity_name obj) (Entity obj))"

definition inject_bindings :: "('u, 'n) env \<Rightarrow> dialect \<Rightarrow> namespace \<Rightarrow> namespace" where
  "inject_bindings env d module =
     setattr (bind_entities (chain d) module)
       (capitalize (unicode_capitalize env) (name d)) (DialectObject d)"

text \<open>
  The body of \<^verbatim>\<open>with open(self.path) as file\<close> in
  \<^verbatim>\<open>IRDLDialectLoader.exec_module(module)\<close>, statement by statement: read the file,
  parse it, take the dialect name from the file name, look the symbol up, assert that
  it is a \<^verbatim>\<open>DialectOp\<close>, make the dialect, write the stub file next to the source,
  bind the classes and the dialect in the module. The result is the exception raised,
  if any, the process state and the module's namespace.
\<close>

definition exec_body ::
  "'fs os \<Rightarrow> ('u, 'n) env \<Rightarrow> loader \<Rightarrow> 'fs world \<Rightarrow> namespace \<Rightarrow>
     exn option \<times> 'fs world \<times> namespace" where
  "exec_body os env self w1 module =
     (case os_read os (fs w1) (loader_path self) of
        Inl e \<Rightarrow> (Some e, w1, module)
      | Inr text \<Rightarrow>
          (let w2 = log_event (ParseModule (loader_path self)) w1
           in case parse_module env text (loader_path self) of
                Inl e \<Rightarrow> (Some e, w2, module)
              | Inr irdl_module \<Rightarrow>
                  (let filename = basename (loader_path self);
                       dialect_name = fst (splitext filename);
                       dialect_op = lookup_symbol env irdl_module dialect_name
                   in if debug env \<and>
                         \<not> (case dialect_op of None \<Rightarrow> False
                            | Some n \<Rightarrow> isinstance_DialectOp env n)
                      then (Some AssertionError, w2, module)
                      else
                        (case make_dialect env dialect_op of
                           Inl e \<Rightarrow> (Some e, w2, module)
                         | Inr d \<Rightarrow>
                             (case write_stub os env (loader_path self)
                                     (dirname (loader_path self) @ ''/'' @ dialect_name @ ''.pyi'')
                                     d w2 of
                                (Some e, w3) \<Rightarrow> (Some e, w3, module)
                              | (None, w3) \<Rightarrow> (None, w3, inject_bindings env d module))))))"

text \<open>
  \<^verbatim>\<open>exec_module\<close> itself is that \<^verbatim>\<open>with\<close> statement: a failing \<^verbatim>\<open>open\<close> raises
  before the body; otherwise the body runs, bindings included, and the source file is
  closed on the way out, normal or not; an exception of the closing replaces the one of
  the body, and is raised after the bindings when the body has completed.
\<close>

definition exec_module ::
  "'fs os \<Rightarrow> ('u, 'n) env \<Rightarrow> loader \<Rightarrow> 'fs world \<Rightarrow> namespace \<Rightarrow>
     exn option \<times> 'fs world \<times> namespace" where
  "exec_module os env self w module =
     (let w1 = log_event (OpenRead (loader_path self)) w
      in case os_open_read os (fs w1) (loader_path self) of
           Some e \<Rightarrow> (Some e, w1, module)
         | None \<Rightarrow>
             (case exec_body os env self w1 module of
                (r, w2, module') \<Rightarrow>
                  ((case os_close_read os (fs w2) (loader_path self) of
                      Some e \<Rightarrow> Some e
                    | None \<Rightarrow> r),
                   log_event (CloseFile (loader_path self)) w2,
                   module')))"


section \<open>The specification's reading of the finder\<close>

text \<open>
  The resolver as the specification words it: the target file name is the last
  dot-separated segment of the name followed by the extension; the candidates are the
  given directories, or the current directory alone; the first candidate that contains
  a file of that name wins.
\<close>

definition last_segment :: "string \<Rightarrow> string" where
  "last_segment N = rev (takeWhile (\<lambda>c. c \<noteq> CHR ''.'') (rev N))"

definition target_filename :: "string \<Rightarrow> string" where
  "target_filename N = last_segment N @ ''.irdl''"

definition candidates :: "'fs world \<Rightarrow> path list option \<Rightarrow> path list" where
  "candidates w path =
     (case path of
        None \<Rightarrow> (case cwd w of None \<Rightarrow> [] | Some c \<Rightarrow> [c])
      | Some p \<Rightarrow> p)"

text \<open>No path is given and the current directory has been removed: there is no
  candidate, and \<^verbatim>\<open>os.getcwd()\<close> raises.\<close>

definition no_cwd :: "'fs world \<Rightarrow> path list option \<Rightarrow> bool" where
  "no_cwd w path = (path = None \<and> cwd w = None)"

definition contains_target :: "'fs os \<Rightarrow> 'fs world \<Rightarrow> string \<Rightarrow> path \<Rightarrow> bool" where
  "contains_target os w N dir = os_isfile os (fs w) (join dir (target_filename N))"

definition first_match :: "'fs os \<Rightarrow> 'fs world \<Rightarrow> string \<Rightarrow> path list option \<Rightarrow> path option" where
  "first_match os w N path = List.find (contains_target os w N) (candidates w path)"

text \<open>The directories examined: those before the first match, and the match.\<close>

definition examined :: "'fs os \<Rightarrow> 'fs world \<Rightarrow> string \<Rightarrow> path list option \<Rightarrow> path list" where
  "examined os w N path =
     takeWhile (\<lambda>dir. \<not> contains_target os w N dir) (candidates w path) @
     take 1 (dropWhile (\<lambda>dir. \<not> contains_target os w N dir) (candidates w path))"

definition descriptor :: "'fs world \<Rightarrow> string \<Rightarrow> path \<Rightarrow> module_spec" where
  "descriptor w N dir =
     spec_from_file_location (cwd w) N (join dir (target_filename N))
       (IRDLDialectLoader N (join dir (target_filename N)))"

section \<open>Concrete inputs\<close>

text \<open>
  A small operating system over an association list of paths and contents, a variant
  of it on which no file can be opened for writing, a variant on which closing a file
  that was read fails with an input/output error, and a toy front-end: a source text
  \<^verbatim>\<open>D n\<close> declares a dialect named \<open>n\<close>, a text \<^verbatim>\<open>F n\<close> declares another kind of
  operation named \<open>n\<close>, and any other text is a syntax error. They serve to run the
  definitions on concrete inputs.
\<close>

type_synonym files = "(path \<times> string) list"

definition demo_os :: "files os" where
  "demo_os =
     \<lparr>os_isfile = (\<lambda>fs p. map_of fs p \<noteq> None),
      os_open_read = (\<lambda>fs p. case map_of fs p of
                                None \<Rightarrow> Some (OSError ''FileNotFoundError'')
                              | Some t \<Rightarrow> None),
      os_read = (\<lambda>fs p. case map_of fs p of
                           None \<Rightarrow> Inl (OSError ''FileNotFoundError'')
                         | Some t \<Rightarrow> Inr t),
      os_close_read = (\<lambda>fs p. None),
      os_open_write = (\<lambda>fs p. Inr ((p, []) # fs)),
      os_write = (\<lambda>fs p s. (None, (p, (case map_of fs p of None \<Rightarrow> [] | Some t \<Rightarrow> t) @ s) # fs)),
      os_close_write = (\<lambda>fs p. (None, fs))\<rparr>"



definition demo_env :: "dialect \<Rightarrow> ((string \<times> bool) list, bool) env" where
  "demo_env d =
     \<lparr>parse_module = (\<lambda>text p. case text of
                          CHR ''D'' # CHR '' '' # n \<Rightarrow> Inr [(n, True)]
                        | CHR ''F'' # CHR '' '' # n \<Rightarrow> Inr [(n, False)]
                        | _ \<Rightarrow> Inl (Raised ''ParseError'')),
      lookup_symbol = (\<lambda>u n. map_of u n),
      isinstance_DialectOp = (\<lambda>n. n),
      make_dialect = (\<lambda>op. if op = Some True then Inr d else Inl (Raised ''TypeError'')),
      generate_dialect_stubs =
        (\<lambda>d. Inr (concat (map (\<lambda>c. ''class '' @ dunder_name c @ '': ...'' @ [newline])
                              (attributes d @ operations d)))),
      debug = True,
      unicode_capitalize = (\<lambda>s. s)\<rparr>"

definition demo_world :: "(string \<rightharpoonup> cached_module) \<Rightarrow> files \<Rightarrow> files world" where
  "demo_world cache files =
     \<lparr>sys_modules = cache, cwd = Some ''/home/user'', fs = files, trace = []\<rparr>"

definition arith_dialect :: dialect where
  "arith_dialect =
     \<lparr>name = ''arith'', attributes = [],
      operations = [\<lparr>dunder_name = ''add'', class_id = 1\<rparr>, \<lparr>dunder_name = ''sub'', class_id = 2\<rparr>]\<rparr>"

definition cmath_dialect :: dialect where
  "cmath_dialect =
     \<lparr>name = ''cmath'', attributes = [\<lparr>dunder_name = ''complex'', class_id = 1\<rparr>],
      operations = [\<lparr>dunder_name = ''complex'', class_id = 2\<rparr>, \<lparr>dunder_name = ''norm'', class_id = 3\<rparr>]\<rparr>"

definition cmath_twice_dialect :: dialect where
  "cmath_twice_dialect =
     \<lparr>name = ''cmath'', attributes = [\<lparr>dunder_name = ''complex'', class_id = 1\<rparr>],
      operations = [\<lparr>dunder_name = ''complex'', class_id = 2\<rparr>, \<lparr>dunder_name = ''norm'', class_id = 3\<rparr>,
                    \<lparr>dunder_name = ''complex'', class_id = 4\<rparr>]\<rparr>"

definition foo_dialect :: dialect where
  "foo_dialect =
     \<lparr>name = ''foo'', attributes = [],
      operations = [\<lparr>dunder_name = ''Foo'', class_id = 1\<rparr>]\<rparr>"

definition foo_shared_dialect :: dialect where
  "foo_shared_dialect =
     \<lparr>name = ''foo'', attributes = [\<lparr>dunder_name = ''Foo'', class_id = 1\<rparr>],
      operations = [\<lparr>dunder_name = ''Foo'', class_id = 2\<rparr>]\<rparr>"

definition mixed_case_dialect :: dialect where
  "mixed_case_dialect = \<lparr>name = ''myDialect'', attributes = [], operations = []\<rparr>"

definition arith_spec :: module_spec where
  "arith_spec =
     \<lparr>spec_name = ''arith'', spec_loader = IRDLDialectLoader ''arith'' ''/srv/dialects/arith.irdl'',
      spec_origin = ''/srv/dialects/arith.irdl''\<rparr>"

section \<open>Properties\<close>

subsection \<open>The finder\<close>

lemma split_on_not_Nil: "split_on c s \<noteq> []"
  by (induction s) (auto split: list.splits)

lemma split_on_no_sep: "c \<notin> set s \<Longrightarrow> split_on c s = [s]"
  by (induction s) auto

lemma split_on_sep: "c \<in> set s \<Longrightarrow> \<exists>h t. split_on c s = h # t \<and> t \<noteq> []"
proof (induction s)
  case Nil
  then show ?case by simp
next
  case (Cons x xs)
  show ?case
  proof (cases "x = c")
    case True
    then show ?thesis by (simp add: split_on_not_Nil)
  next
    case False
    with Cons.prems have "c \<in> set xs" by simp
    with Cons.IH obtain h t where "split_on c xs = h # t" "t \<noteq> []" by blast
    with False show ?thesis by simp
  qed
qed

text \<open>The last element of the split is what follows the last separator.\<close>

lemma last_split_on: "last (split_on c s) = rev (takeWhile (\<lambda>x. x \<noteq> c) (rev s))"
proof (induction s)
  case Nil
  then show ?case by simp
next
  case (Cons x xs)
  show ?case
  proof (cases "c \<in> set xs")
    case True
    then have tw: "takeWhile (\<lambda>x. x \<noteq> c) (rev xs @ [x]) = takeWhile (\<lambda>x. x \<noteq> c) (rev xs)"
      by (intro takeWhile_append1[of c]) auto
    from split_on_sep[OF True] obtain h t where ht: "split_on c xs = h # t" "t \<noteq> []"
      by blast
    then have "last (split_on c (x # xs)) = last (split_on c xs)"
      by simp
    with Cons.IH tw show ?thesis by simp
  next
    case False
    then have "takeWhile (\<lambda>x. x \<noteq> c) (rev xs @ [x]) = rev xs @ takeWhile (\<lambda>x. x \<noteq> c) [x]"
      by (intro takeWhile_append2) auto
    with False show ?thesis
      by (simp add: split_on_no_sep)
  qed
qed

text \<open>The loop returns the first hit and logs one check per entry it reached.\<close>

lemma search_entries_eq:
  "search_entries os w N f dirs =
     (map_option (\<lambda>dir. spec_from_file_location (cwd w) N (join dir f) (IRDLDialectLoader N (join dir f)))
        (List.find (\<lambda>d. os_isfile os (fs w) (join d f)) dirs),
      w\<lparr>trace := trace w @ map (\<lambda>d. IsFile (join d f))
          (takeWhile (\<lambda>d. \<not> os_isfile os (fs w) (join d f)) dirs @
           take 1 (dropWhile (\<lambda>d. \<not> os_isfile os (fs w) (join d f)) dirs))\<rparr>)"
proof (induction dirs arbitrary: w)
  case Nil
  then show ?case by simp
next
  case (Cons d ds)
  show ?case
    by (simp add: Cons.IH log_event_def Let_def)
qed

lemma find_spec_uncached:
  assumes "sys_modules w N = None"
  shows "find_spec os w N path =
           (if no_cwd w path then (Inl (OSError ''FileNotFoundError''), w)
            else (Inr (map_option (descriptor w N) (first_match os w N path)),
                  w\<lparr>trace := trace w @
                       map (\<lambda>dir. IsFile (join dir (target_filename N))) (examined os w N path)\<rparr>))"
proof -
  have f: "last (split_on (CHR ''.'') N) @ ''.irdl'' = target_filename N"
    by (simp add: target_filename_def last_segment_def last_split_on)
  show ?thesis
  proof (cases "no_cwd w path")
    case True
    with assms show ?thesis
      by (simp add: find_spec_def no_cwd_def getcwd_def)
  next
    case False
    with assms f have "find_spec os w N path =
        (case search_entries os w N (target_filename N) (candidates w path) of
           (r, w') \<Rightarrow> (Inr r, w'))"
      by (auto simp: find_spec_def candidates_def no_cwd_def getcwd_def split: option.splits)
    with False show ?thesis
      unfolding first_match_def examined_def contains_target_def descriptor_def
      by (simp add: search_entries_eq)
  qed
qed

lemma isabs_join: "isabs (join a b) \<longleftrightarrow> isabs a \<or> isabs b"
  by (cases a; cases b) (auto simp: join_def isabs_def)

lemma isabs_target_filename: "isabs (target_filename N) \<longleftrightarrow> isabs (last_segment N)"
  by (cases "last_segment N") (simp_all add: target_filename_def isabs_def)

text \<open>
  C1. A name present in \<^verbatim>\<open>sys.modules\<close>: \<open>find_spec\<close> returns the cached
  module's \<^verbatim>\<open>__spec__\<close> as it is, and the process state, trace included, is the one
  it started from: no path is examined, no file opened, nothing parsed, whatever the
  path argument and the file system are.
\<close>

theorem find_spec_cache_hit:
  "sys_modules w N = Some m \<Longrightarrow> find_spec os w N path = (Inr (dunder_spec m), w)"
  by (simp add: find_spec_def)

theorem find_spec_cache_hit_witness:
  "sys_modules (demo_world [''arith'' \<mapsto> \<lparr>dunder_spec = Some arith_spec\<rparr>] [(''/home/user/arith.irdl'', ''D arith'')]) ''arith''
     = Some \<lparr>dunder_spec = Some arith_spec\<rparr> \<and>
   find_spec demo_os (demo_world [''arith'' \<mapsto> \<lparr>dunder_spec = Some arith_spec\<rparr>] [(''/home/user/arith.irdl'', ''D arith'')]) ''arith'' None
     = (Inr (Some arith_spec),
        demo_world [''arith'' \<mapsto> \<lparr>dunder_spec = Some arith_spec\<rparr>] [(''/home/user/arith.irdl'', ''D arith'')])"
  using find_spec_cache_hit [of "demo_world [''arith'' \<mapsto> \<lparr>dunder_spec = Some arith_spec\<rparr>] [(''/home/user/arith.irdl'', ''D arith'')]"
      "''arith''" "\<lparr>dunder_spec = Some arith_spec\<rparr>" demo_os None]
  by (simp add: demo_world_def)

text \<open>
  C9. A name present in \<^verbatim>\<open>sys.modules\<close> whose module has \<^verbatim>\<open>__spec__ = None\<close>:
  \<open>find_spec\<close> returns \<^verbatim>\<open>None\<close>, the answer "no match", and searches nothing, even
  when a matching file exists.
\<close>

theorem find_spec_cached_without_spec:
  "sys_modules w N = Some m \<Longrightarrow> dunder_spec m = None \<Longrightarrow>
   find_spec os w N path = (Inr None, w)"
  by (simp add: find_spec_def)

theorem find_spec_cached_without_spec_witness:
  "sys_modules (demo_world [''main'' \<mapsto> \<lparr>dunder_spec = None\<rparr>] [(''/home/user/main.irdl'', ''D main'')]) ''main''
     = Some \<lparr>dunder_spec = None\<rparr> \<and>
   dunder_spec \<lparr>dunder_spec = None\<rparr> = None \<and>
   contains_target demo_os (demo_world [''main'' \<mapsto> \<lparr>dunder_spec = None\<rparr>] [(''/home/user/main.irdl'', ''D main'')])
     ''main'' ''/home/user'' \<and>
   fst (find_spec demo_os (demo_world [''main'' \<mapsto> \<lparr>dunder_spec = None\<rparr>] [(''/home/user/main.irdl'', ''D main'')])
     ''main'' None) = Inr None"
  using find_spec_cached_without_spec [of "demo_world [''main'' \<mapsto> \<lparr>dunder_spec = None\<rparr>] [(''/home/user/main.irdl'', ''D main'')]"
      "''main''" "\<lparr>dunder_spec = None\<rparr>" demo_os None]
  by (simp add: demo_world_def contains_target_def demo_os_def target_filename_def
      last_segment_def join_def isabs_def)

text \<open>
  C4. A name absent from \<^verbatim>\<open>sys.modules\<close>: the result of \<open>find_spec\<close> is the
  descriptor of the first candidate directory, in the order given, that contains a file
  named by the last dot-separated segment of the name followed by \<^verbatim>\<open>.irdl\<close>; the
  candidates are the given path, or the current directory alone when none is given
  (the one case without a search is that no path is given and the current directory
  has been removed: asking for it raises); the directories are examined in order up to
  that first match. So when the first of two candidates contains the file, the
  descriptor is that of the first.
\<close>

theorem find_spec_first_match:
  assumes "sys_modules w N = None"
  shows "find_spec os w N path =
           (if no_cwd w path then (Inl (OSError ''FileNotFoundError''), w)
            else (Inr (map_option (descriptor w N) (first_match os w N path)),
                  w\<lparr>trace := trace w @
                       map (\<lambda>dir. IsFile (join dir (target_filename N))) (examined os w N path)\<rparr>)) \<and>
         (contains_target os w N A \<longrightarrow>
            fst (find_spec os w N (Some [A, B])) = Inr (Some (descriptor w N A)))"
  using assms by (simp add: find_spec_uncached first_match_def candidates_def no_cwd_def)

theorem find_spec_first_match_witness:
  "sys_modules (demo_world Map.empty [(''B/foo.irdl'', ''D foo''), (''A/foo.irdl'', ''D foo'')]) ''pkg.foo'' = None \<and>
   contains_target demo_os (demo_world Map.empty [(''B/foo.irdl'', ''D foo''), (''A/foo.irdl'', ''D foo'')]) ''pkg.foo'' ''A'' \<and>
   contains_target demo_os (demo_world Map.empty [(''B/foo.irdl'', ''D foo''), (''A/foo.irdl'', ''D foo'')]) ''pkg.foo'' ''B'' \<and>
   map_sum id (map_option (\<lambda>s. loader_path (spec_loader s)))
     (fst (find_spec demo_os (demo_world Map.empty [(''B/foo.irdl'', ''D foo''), (''A/foo.irdl'', ''D foo'')])
        ''pkg.foo'' (Some [''A'', ''B''])))
     = Inr (Some ''A/foo.irdl'')"
proof -
  let ?w = "demo_world Map.empty [(''B/foo.irdl'', ''D foo''), (''A/foo.irdl'', ''D foo'')]"
  have h: "sys_modules ?w ''pkg.foo'' = None"
    by (simp add: demo_world_def)
  have f: "target_filename ''pkg.foo'' = ''foo.irdl''"
    by (simp add: target_filename_def last_segment_def)
  have a: "contains_target demo_os ?w ''pkg.foo'' ''A''"
    by (simp add: contains_target_def f demo_world_def demo_os_def join_def isabs_def)
  have b: "contains_target demo_os ?w ''pkg.foo'' ''B''"
    by (simp add: contains_target_def f demo_world_def demo_os_def join_def isabs_def)
  from find_spec_first_match [OF h, where os = demo_os and A = "''A''" and B = "''B''"] a
  have "fst (find_spec demo_os ?w ''pkg.foo'' (Some [''A'', ''B''])) = Inr (Some (descriptor ?w ''pkg.foo'' ''A''))"
    by blast
  then have "map_sum id (map_option (\<lambda>s. loader_path (spec_loader s)))
      (fst (find_spec demo_os ?w ''pkg.foo'' (Some [''A'', ''B'']))) = Inr (Some ''A/foo.irdl'')"
    by (simp add: descriptor_def f spec_from_file_location_def IRDLDialectLoader_def join_def isabs_def)
  with h a b show ?thesis by blast
qed

text \<open>
  C5, as stated: a name with no matching file in any candidate directory gets the
  answer "no match", never an exception. It fails in two ways. For a name that
  \<^verbatim>\<open>sys.modules\<close> holds, no directory contains \<^verbatim>\<open>arith.irdl\<close> and the finder still
  answers with the cached module's descriptor. And when no path is given and the
  current directory has been removed, \<^verbatim>\<open>os.getcwd()\<close> raises and so does the finder.
\<close>

theorem find_spec_no_file_not_none:
  "\<not> contains_target demo_os (demo_world [''arith'' \<mapsto> \<lparr>dunder_spec = Some arith_spec\<rparr>] []) ''arith'' ''/home/user'' \<and>
   candidates (demo_world [''arith'' \<mapsto> \<lparr>dunder_spec = Some arith_spec\<rparr>] []) None = [''/home/user''] \<and>
   fst (find_spec demo_os (demo_world [''arith'' \<mapsto> \<lparr>dunder_spec = Some arith_spec\<rparr>] []) ''arith'' None)
     = Inr (Some arith_spec) \<and>
   sys_modules ((demo_world Map.empty [])\<lparr>cwd := None\<rparr>) ''arith'' = None \<and>
   candidates ((demo_world Map.empty [])\<lparr>cwd := None\<rparr>) None = [] \<and>
   fst (find_spec demo_os ((demo_world Map.empty [])\<lparr>cwd := None\<rparr>) ''arith'' None)
     = Inl (OSError ''FileNotFoundError'')"
  by (simp add: contains_target_def candidates_def find_spec_def getcwd_def demo_world_def
      demo_os_def)

text \<open>
  C5, amended: for a name absent from \<^verbatim>\<open>sys.modules\<close> with no matching file in
  any candidate directory, \<open>find_spec\<close> returns \<^verbatim>\<open>None\<close> and raises nothing, unless
  no path is given and the current directory has been removed: then it raises the
  \<^verbatim>\<open>FileNotFoundError\<close> of \<^verbatim>\<open>os.getcwd()\<close>. In both cases \<^verbatim>\<open>sys.modules\<close>, the
  current directory and the file system are as before, and the trace grew by one
  existence check per candidate and by nothing else (by nothing at all when it raises).
\<close>

theorem find_spec_no_match:
  assumes "sys_modules w N = None"
    and "\<forall>dir\<in>set (candidates w path). \<not> contains_target os w N dir"
  shows "find_spec os w N path =
           (if no_cwd w path then (Inl (OSError ''FileNotFoundError''), w)
            else (Inr None,
                  w\<lparr>trace := trace w @
                       map (\<lambda>dir. IsFile (join dir (target_filename N))) (candidates w path)\<rparr>))"
proof -
  from assms(2) have "first_match os w N path = None"
    by (simp add: first_match_def find_None_iff)
  moreover from assms(2) have "examined os w N path = candidates w path"
    by (simp add: examined_def takeWhile_eq_all_conv [THEN iffD2] dropWhile_eq_Nil_conv [THEN iffD2])
  ultimately show ?thesis
    using find_spec_uncached [OF assms(1)] by simp
qed

theorem find_spec_no_match_witness:
  "sys_modules (demo_world Map.empty [(''A/foo.irdl'', ''D foo'')]) ''pkg.bar'' = None \<and>
   \<not> contains_target demo_os (demo_world Map.empty [(''A/foo.irdl'', ''D foo'')]) ''pkg.bar'' ''A'' \<and>
   \<not> contains_target demo_os (demo_world Map.empty [(''A/foo.irdl'', ''D foo'')]) ''pkg.bar'' ''B'' \<and>
   \<not> no_cwd (demo_world Map.empty [(''A/foo.irdl'', ''D foo'')]) (Some [''A'', ''B'']) \<and>
   find_spec demo_os (demo_world Map.empty [(''A/foo.irdl'', ''D foo'')]) ''pkg.bar'' (Some [''A'', ''B''])
     = (Inr None, (demo_world Map.empty [(''A/foo.irdl'', ''D foo'')])
                \<lparr>trace := [IsFile ''A/bar.irdl'', IsFile ''B/bar.irdl'']\<rparr>)"
proof -
  let ?w = "demo_world Map.empty [(''A/foo.irdl'', ''D foo'')]"
  have h: "sys_modules ?w ''pkg.bar'' = None"
    by (simp add: demo_world_def)
  have f: "target_filename ''pkg.bar'' = ''bar.irdl''"
    by (simp add: target_filename_def last_segment_def)
  have a: "\<not> contains_target demo_os ?w ''pkg.bar'' ''A''"
    by (simp add: contains_target_def f demo_world_def demo_os_def join_def isabs_def)
  have b: "\<not> contains_target demo_os ?w ''pkg.bar'' ''B''"
    by (simp add: contains_target_def f demo_world_def demo_os_def join_def isabs_def)
  have c: "candidates ?w (Some [''A'', ''B'']) = [''A'', ''B'']"
    by (simp add: candidates_def)
  have g: "\<not> no_cwd ?w (Some [''A'', ''B''])"
    by (simp add: no_cwd_def)
  have n: "\<forall>dir\<in>set (candidates ?w (Some [''A'', ''B''])). \<not> contains_target demo_os ?w ''pkg.bar'' dir"
    using a b by (simp add: c)
  have "find_spec demo_os ?w ''pkg.bar'' (Some [''A'', ''B''])
          = (Inr None, ?w\<lparr>trace := [IsFile ''A/bar.irdl'', IsFile ''B/bar.irdl'']\<rparr>)"
    using find_spec_no_match [OF h n] g unfolding c f
    by (simp add: join_def isabs_def demo_world_def)
  with h a b g show ?thesis by blast
qed

text \<open>
  C8, as stated: the descriptor's file path is absolute whatever the candidate entry.
  It fails for a relative entry: the path handed to the loader, the one
  \<open>exec_module\<close> opens, is the entry joined with the file name, as it is.
\<close>

theorem find_spec_relative_entry:
  "map_sum id (map_option (\<lambda>s. (loader_path (spec_loader s), isabs (loader_path (spec_loader s)))))
     (fst (find_spec demo_os (demo_world Map.empty [(''dialects/arith.irdl'', ''D arith'')])
        ''dialects.arith'' (Some [''dialects''])))
     = Inr (Some (''dialects/arith.irdl'', False))"
proof -
  let ?w = "demo_world Map.empty [(''dialects/arith.irdl'', ''D arith'')]"
  have h: "sys_modules ?w ''dialects.arith'' = None"
    by (simp add: demo_world_def)
  have f: "target_filename ''dialects.arith'' = ''arith.irdl''"
    by (simp add: target_filename_def last_segment_def)
  have "first_match demo_os ?w ''dialects.arith'' (Some [''dialects'']) = Some ''dialects''"
    by (simp add: first_match_def candidates_def contains_target_def f demo_world_def
        demo_os_def join_def isabs_def)
  then show ?thesis
    by (simp add: find_spec_uncached [OF h] no_cwd_def descriptor_def f
        spec_from_file_location_def IRDLDialectLoader_def join_def isabs_def)
qed

text \<open>
  C8, amended: on a match for a name absent from \<^verbatim>\<open>sys.modules\<close>, the path of the
  descriptor's loader, the one \<open>exec_module\<close> opens, is the matched entry joined with
  the file name, unchanged; it is absolute exactly when the entry is absolute or the
  last dot-separated segment of the name starts with a slash (the join then drops the
  entry). The origin of the descriptor, which the standard library fills and the
  loader never reads, is absolute exactly when that path is absolute or the current
  directory exists and is absolute.
\<close>

theorem find_spec_descriptor_paths:
  assumes "sys_modules w N = None"
    and "first_match os w N path = Some dir"
  shows "\<exists>s. fst (find_spec os w N path) = Inr (Some s) \<and>
           spec_name s = N \<and>
           loader_module_name (spec_loader s) = N \<and>
           loader_path (spec_loader s) = join dir (target_filename N) \<and>
           (isabs (loader_path (spec_loader s)) \<longleftrightarrow> isabs dir \<or> isabs (last_segment N)) \<and>
           (isabs (spec_origin s) \<longleftrightarrow>
              isabs (loader_path (spec_loader s)) \<or> (\<exists>c. cwd w = Some c \<and> isabs c))"
proof -
  have "\<not> no_cwd w path"
  proof
    assume "no_cwd w path"
    then have "first_match os w N path = None"
      by (simp add: no_cwd_def first_match_def candidates_def)
    with assms(2) show False by simp
  qed
  with assms show ?thesis
    by (auto simp: find_spec_uncached descriptor_def spec_from_file_location_def
        IRDLDialectLoader_def isabs_join isabs_target_filename split: option.splits)
qed

theorem find_spec_descriptor_paths_witness:
  "sys_modules (demo_world Map.empty [(''/srv/dialects/arith.irdl'', ''D arith'')]) ''dialects.arith'' = None \<and>
   first_match demo_os (demo_world Map.empty [(''/srv/dialects/arith.irdl'', ''D arith'')])
     ''dialects.arith'' (Some [''/tmp'', ''/srv/dialects'']) = Some ''/srv/dialects'' \<and>
   map_sum id (map_option (\<lambda>s. (loader_path (spec_loader s), isabs (loader_path (spec_loader s)), isabs (spec_origin s))))
     (fst (find_spec demo_os (demo_world Map.empty [(''/srv/dialects/arith.irdl'', ''D arith'')])
        ''dialects.arith'' (Some [''/tmp'', ''/srv/dialects''])))
     = Inr (Some (''/srv/dialects/arith.irdl'', True, True))"
proof -
  let ?w = "demo_world Map.empty [(''/srv/dialects/arith.irdl'', ''D arith'')]"
  have h: "sys_modules ?w ''dialects.arith'' = None"
    by (simp add: demo_world_def)
  have f: "target_filename ''dialects.arith'' = ''arith.irdl''"
    by (simp add: target_filename_def last_segment_def)
  have m: "first_match demo_os ?w ''dialects.arith'' (Some [''/tmp'', ''/srv/dialects'']) = Some ''/srv/dialects''"
    by (simp add: first_match_def candidates_def contains_target_def f demo_world_def
        demo_os_def join_def isabs_def)
  from find_spec_descriptor_paths [OF h m] obtain s where
    s: "fst (find_spec demo_os ?w ''dialects.arith'' (Some [''/tmp'', ''/srv/dialects''])) = Inr (Some s)"
      "loader_path (spec_loader s) = join ''/srv/dialects'' (target_filename ''dialects.arith'')"
      "isabs (spec_origin s) \<longleftrightarrow>
         isabs (loader_path (spec_loader s)) \<or> (\<exists>c. cwd ?w = Some c \<and> isabs c)"
    by blast
  have "map_sum id (map_option (\<lambda>s. (loader_path (spec_loader s), isabs (loader_path (spec_loader s)), isabs (spec_origin s))))
     (fst (find_spec demo_os ?w ''dialects.arith'' (Some [''/tmp'', ''/srv/dialects''])))
     = Inr (Some (''/srv/dialects/arith.irdl'', True, True))"
    using s by (simp add: f join_def isabs_def)
  with h m show ?thesis by blast
qed

subsection \<open>The loader\<close>

text \<open>What a completed body went through, and that a failed one binds nothing.\<close>

lemma exec_body_success:
  assumes "exec_body os env self w1 m = (None, w2, m')"
  obtains t u d where
    "os_read os (fs w1) (loader_path self) = Inr t"
    "parse_module env t (loader_path self) = Inr u"
    "make_dialect env (lookup_symbol env u (fst (splitext (basename (loader_path self))))) = Inr d"
    "m' = inject_bindings env d m"
  using assms
  by (auto simp: exec_body_def Let_def
      split: sum.splits if_splits prod.splits option.splits)


lemma exec_module_success:
  assumes "exec_module os env self w m = (None, w', m')"
  obtains t u d where
    "os_open_read os (fs w) (loader_path self) = None"
    "os_read os (fs w) (loader_path self) = Inr t"
    "parse_module env t (loader_path self) = Inr u"
    "make_dialect env (lookup_symbol env u (fst (splitext (basename (loader_path self))))) = Inr d"
    "m' = inject_bindings env d m"
proof -
  from assms have o: "os_open_read os (fs w) (loader_path self) = None"
    by (auto simp: exec_module_def log_event_def Let_def split: option.splits prod.splits)
  with assms obtain w2 where
    "exec_body os env self (log_event (OpenRead (loader_path self)) w) m = (None, w2, m')"
    by (auto simp: exec_module_def log_event_def Let_def split: option.splits prod.splits)
  then obtain t u d where
    "os_read os (fs w) (loader_path self) = Inr t"
    "parse_module env t (loader_path self) = Inr u"
    "make_dialect env (lookup_symbol env u (fst (splitext (basename (loader_path self))))) = Inr d"
    "m' = inject_bindings env d m"
    by (rule exec_body_success) (simp add: log_event_def)
  with o show ?thesis
    by (rule that)
qed



text \<open>The binding loop: a name holds the last entity of that name, else what it held.\<close>

lemma find_app:
  "List.find P (xs @ ys) = (case List.find P xs of None \<Rightarrow> List.find P ys | Some x \<Rightarrow> Some x)"
  by (induction xs) auto

lemma find_Some_mem: "List.find P xs = Some x \<Longrightarrow> x \<in> set xs \<and> P x"
  by (induction xs) (auto split: if_splits)

lemma find_map: "List.find P (map f xs) = map_option f (List.find (\<lambda>x. P (f x)) xs)"
  by (induction xs) auto

lemma find_rev_last:
  "filter P xs \<noteq> [] \<Longrightarrow> List.find P (rev xs) = Some (last (filter P xs))"
  by (induction xs rule: rev_induct) auto

lemma bind_entities_lookup:
  "bind_entities objs m k =
     (case List.find (\<lambda>obj. entity_name obj = k) (rev objs) of
        None \<Rightarrow> m k
      | Some obj \<Rightarrow> Some (Entity obj))"
proof (induction objs arbitrary: m)
  case Nil
  then show ?case by simp
next
  case (Cons obj objs)
  show ?case
    by (simp add: Cons.IH setattr_def find_app split: option.splits)
qed

lemma bind_entities_other:
  "k \<notin> entity_name ` set objs \<Longrightarrow> bind_entities objs m k = m k"
  by (auto simp: bind_entities_lookup split: option.splits dest: find_Some_mem)

lemma bind_entities_distinct:
  assumes "distinct (map entity_name objs)" and "obj \<in> set objs"
  shows "bind_entities objs m (entity_name obj) = Some (Entity obj)"
proof -
  from assms(2) have "List.find (\<lambda>x. entity_name x = entity_name obj) (rev objs) \<noteq> None"
    by (auto simp: find_None_iff)
  then obtain x where x: "List.find (\<lambda>x. entity_name x = entity_name obj) (rev objs) = Some x"
    by blast
  then have "x \<in> set objs" "entity_name x = entity_name obj"
    by (auto dest: find_Some_mem)
  with assms have "x = obj"
    by (meson distinct_map inj_onD)
  with x show ?thesis
    by (simp add: bind_entities_lookup)
qed

lemma inject_bindings_handle:
  "inject_bindings env d m (capitalize (unicode_capitalize env) (name d)) = Some (DialectObject d)"
  by (simp add: inject_bindings_def setattr_def)

lemma inject_bindings_other:
  "k \<noteq> capitalize (unicode_capitalize env) (name d) \<Longrightarrow>
   inject_bindings env d m k = bind_entities (chain d) m k"
  by (simp add: inject_bindings_def setattr_def)

text \<open>Lower-casing changes exactly the upper-case letters.\<close>

lemma to_lower_fixed: "to_lower c = c \<longleftrightarrow> \<not> is_upper c"
proof (cases "is_upper c")
  case True
  then have "(of_char (to_lower c) :: nat) = of_char c + 32"
    by (simp add: to_lower_def is_upper_def)
  then have "to_lower c \<noteq> c" by auto
  with True show ?thesis by simp
next
  case False
  then show ?thesis by (simp add: to_lower_def)
qed

lemma map_to_lower_fixed: "map to_lower cs = cs \<longleftrightarrow> (\<forall>x\<in>set cs. \<not> is_upper x)"
  by (induction cs) (auto simp: to_lower_fixed)

lemma demo_names:
  "fst (splitext (basename ''/d/foo.irdl'')) = ''foo''"
  "fst (splitext (basename ''/d/arith.irdl'')) = ''arith''"
  "fst (splitext (basename ''/d/cmath.irdl'')) = ''cmath''"
  "fst (splitext (basename ''/d/myDialect.irdl'')) = ''myDialect''"
  by (simp_all add: basename_def splitext_def Let_def)

lemma demo_capitalize:
  "capitalize u ''foo'' = ''Foo''"
  "capitalize u ''arith'' = ''Arith''"
  "capitalize u ''cmath'' = ''Cmath''"
  "capitalize u ''myDialect'' = ''Mydialect''"
  by code_simp+

text \<open>
  The toy front-end on a file \<open>p\<close> whose text declares the dialect named after the
  file: the steps succeed and the run binds the dialect the builder returns.
\<close>

lemma demo_steps:
  assumes "fst (splitext (basename p)) = n" and "src = CHR ''D'' # CHR '' '' # n"
  shows "os_read demo_os (fs (demo_world c [(p, src)])) (loader_path (IRDLDialectLoader N p)) = Inr src"
    and "parse_module (demo_env d) src (loader_path (IRDLDialectLoader N p)) = Inr [(n, True)]"
    and "make_dialect (demo_env d) (lookup_symbol (demo_env d) [(n, True)]
           (fst (splitext (basename (loader_path (IRDLDialectLoader N p)))))) = Inr d"
  using assms
  by (simp_all add: demo_os_def demo_world_def demo_env_def IRDLDialectLoader_def)

lemma demo_run_ok:
  assumes "fst (splitext (basename p)) = n" and "src = CHR ''D'' # CHR '' '' # n"
  shows "fst (exec_module demo_os (demo_env d) (IRDLDialectLoader N p)
            (demo_world Map.empty [(p, src)]) m) = None \<and>
         snd (snd (exec_module demo_os (demo_env d) (IRDLDialectLoader N p)
            (demo_world Map.empty [(p, src)]) m)) = inject_bindings (demo_env d) d m"
  using assms
  by (simp add: exec_module_def exec_body_def IRDLDialectLoader_def demo_world_def demo_os_def
      demo_env_def write_stub_def stub_body_def print_to_def log_event_def Let_def)




text \<open>
  C6, as stated: a missing declaration fails with a \<^verbatim>\<open>DeclarationMissing\<close> error
  and a declaration of another kind with a \<^verbatim>\<open>DeclarationTypeMismatch\<close> error. The
  code has neither: both conditions fail the one \<^verbatim>\<open>assert\<close> and raise the same
  \<^verbatim>\<open>AssertionError\<close>. Here a file \<^verbatim>\<open>foo.irdl\<close> that declares only a dialect
  \<open>bar\<close>, and one that declares an operation \<open>foo\<close> that is not a dialect.
\<close>

theorem exec_module_same_assertion_error:
  "fst (exec_module demo_os (demo_env foo_dialect) (IRDLDialectLoader ''foo'' ''/d/foo.irdl'')
          (demo_world Map.empty [(''/d/foo.irdl'', ''D bar'')]) Map.empty) = Some AssertionError \<and>
   fst (exec_module demo_os (demo_env foo_dialect) (IRDLDialectLoader ''foo'' ''/d/foo.irdl'')
          (demo_world Map.empty [(''/d/foo.irdl'', ''F foo'')]) Map.empty) = Some AssertionError"
  by (simp add: exec_module_def exec_body_def IRDLDialectLoader_def demo_world_def demo_os_def
      demo_env_def demo_names log_event_def Let_def)

text \<open>
  C6, amended: with assertions enabled, when the file is read and parsed and the lookup
  of the file's base name finds no node, or a node that is not a \<^verbatim>\<open>DialectOp\<close>,
  the load raises \<^verbatim>\<open>AssertionError\<close>, the same in both cases (replaced by the
  exception of closing the source file only if that closing fails as well); the file
  system is untouched, the trace shows the read, the parse and the closing of the
  source file and no attempt to open or write the stub file, and the module has no new
  binding.
\<close>

theorem exec_module_assertion_failure:
  assumes "debug env"
    and "os_open_read os (fs w) (loader_path self) = None"
    and "os_read os (fs w) (loader_path self) = Inr t"
    and "parse_module env t (loader_path self) = Inr u"
    and "case lookup_symbol env u (fst (splitext (basename (loader_path self)))) of
           None \<Rightarrow> True
         | Some n \<Rightarrow> \<not> isinstance_DialectOp env n"
  shows "exec_module os env self w m =
           (Some (case os_close_read os (fs w) (loader_path self) of
                    None \<Rightarrow> AssertionError
                  | Some e \<Rightarrow> e),
            w\<lparr>trace := trace w @ [OpenRead (loader_path self), ParseModule (loader_path self),
                                   CloseFile (loader_path self)]\<rparr>,
            m)"
  using assms
  by (simp add: exec_module_def exec_body_def log_event_def Let_def split: option.splits)

theorem exec_module_assertion_failure_witness:
  "exec_module demo_os (demo_env foo_dialect) (IRDLDialectLoader ''foo'' ''/d/foo.irdl'')
      (demo_world Map.empty [(''/d/foo.irdl'', ''D bar'')]) [''__name__'' \<mapsto> Object 0]
     = (Some AssertionError,
        (demo_world Map.empty [(''/d/foo.irdl'', ''D bar'')])
          \<lparr>trace := [OpenRead ''/d/foo.irdl'', ParseModule ''/d/foo.irdl'', CloseFile ''/d/foo.irdl'']\<rparr>,
        [''__name__'' \<mapsto> Object 0]) \<and>
   exec_module demo_os (demo_env foo_dialect) (IRDLDialectLoader ''foo'' ''/d/foo.irdl'')
      (demo_world Map.empty [(''/d/foo.irdl'', ''F foo'')]) [''__name__'' \<mapsto> Object 0]
     = (Some AssertionError,
        (demo_world Map.empty [(''/d/foo.irdl'', ''F foo'')])
          \<lparr>trace := [OpenRead ''/d/foo.irdl'', ParseModule ''/d/foo.irdl'', CloseFile ''/d/foo.irdl'']\<rparr>,
        [''__name__'' \<mapsto> Object 0])"
proof -
  let ?self = "IRDLDialectLoader ''foo'' ''/d/foo.irdl''"
  let ?env = "demo_env foo_dialect"
  have p: "loader_path ?self = ''/d/foo.irdl''"
    by (simp add: IRDLDialectLoader_def)
  have dbg: "debug ?env"
    by (simp add: demo_env_def)
  have missing:
    "os_open_read demo_os (fs (demo_world Map.empty [(''/d/foo.irdl'', ''D bar'')])) (loader_path ?self) = None"
    "os_read demo_os (fs (demo_world Map.empty [(''/d/foo.irdl'', ''D bar'')])) (loader_path ?self) = Inr ''D bar''"
    "parse_module ?env ''D bar'' (loader_path ?self) = Inr [(''bar'', True)]"
    "case lookup_symbol ?env [(''bar'', True)] (fst (splitext (basename (loader_path ?self)))) of
       None \<Rightarrow> True | Some n \<Rightarrow> \<not> isinstance_DialectOp ?env n"
    by (simp_all add: p demo_os_def demo_world_def demo_env_def demo_names)
  have mismatch:
    "os_open_read demo_os (fs (demo_world Map.empty [(''/d/foo.irdl'', ''F foo'')])) (loader_path ?self) = None"
    "os_read demo_os (fs (demo_world Map.empty [(''/d/foo.irdl'', ''F foo'')])) (loader_path ?self) = Inr ''F foo''"
    "parse_module ?env ''F foo'' (loader_path ?self) = Inr [(''foo'', False)]"
    "case lookup_symbol ?env [(''foo'', False)] (fst (splitext (basename (loader_path ?self)))) of
       None \<Rightarrow> True | Some n \<Rightarrow> \<not> isinstance_DialectOp ?env n"
    by (simp_all add: p demo_os_def demo_world_def demo_env_def demo_names)
  show ?thesis
    using exec_module_assertion_failure [OF dbg missing, of "[''__name__'' \<mapsto> Object 0]"]
      exec_module_assertion_failure [OF dbg mismatch, of "[''__name__'' \<mapsto> Object 0]"]
    by (simp add: p demo_world_def demo_os_def)
qed

text \<open>
  C2, as stated: after a successful load every entity of the dialect is bound under its
  own name. It fails when a later binding takes the name: for a dialect \<open>foo\<close> whose
  one operation class is named \<open>Foo\<close>, the last \<^verbatim>\<open>setattr\<close> binds the dialect itself
  under \<open>Foo\<close>, and the operation class is bound nowhere.
\<close>

theorem exec_module_entity_shadowed:
  "fst (exec_module demo_os (demo_env foo_dialect) (IRDLDialectLoader ''foo'' ''/d/foo.irdl'')
          (demo_world Map.empty [(''/d/foo.irdl'', ''D foo'')]) Map.empty) = None \<and>
   operations foo_dialect = [\<lparr>dunder_name = ''Foo'', class_id = 1\<rparr>] \<and>
   snd (snd (exec_module demo_os (demo_env foo_dialect) (IRDLDialectLoader ''foo'' ''/d/foo.irdl'')
          (demo_world Map.empty [(''/d/foo.irdl'', ''D foo'')]) Map.empty)) ''Foo''
     = Some (DialectObject foo_dialect) \<and>
   snd (snd (exec_module demo_os (demo_env foo_dialect) (IRDLDialectLoader ''foo'' ''/d/foo.irdl'')
          (demo_world Map.empty [(''/d/foo.irdl'', ''D foo'')]) Map.empty)) ''Foo''
     \<noteq> Some (Entity (OperationClass \<lparr>dunder_name = ''Foo'', class_id = 1\<rparr>))"
  by (simp add: demo_run_ok [OF demo_names(1)] inject_bindings_def setattr_def foo_dialect_def
      demo_capitalize)

text \<open>
  C2, amended: after a successful load that built the dialect \<open>d\<close>, the capitalized
  dialect name is bound to the dialect; every name that is neither that name nor the
  name of an entity holds exactly what it held before the call (nothing else is added
  or modified); and when the entity names are pairwise distinct and none of them is
  the capitalized dialect name, every attribute class and every operation class is
  bound under its own name.
\<close>

theorem exec_module_bindings:
  assumes "os_read os (fs w) (loader_path self) = Inr t"
    and "parse_module env t (loader_path self) = Inr u"
    and "make_dialect env (lookup_symbol env u (fst (splitext (basename (loader_path self))))) = Inr d"
    and "exec_module os env self w m = (None, w', m')"
  shows "m' (capitalize (unicode_capitalize env) (name d)) = Some (DialectObject d) \<and>
         (\<forall>k. k \<noteq> capitalize (unicode_capitalize env) (name d) \<and>
              k \<notin> entity_name ` set (chain d) \<longrightarrow> m' k = m k) \<and>
         (distinct (map entity_name (chain d)) \<and>
          capitalize (unicode_capitalize env) (name d) \<notin> entity_name ` set (chain d) \<longrightarrow>
            (\<forall>c\<in>set (attributes d). m' (dunder_name c) = Some (Entity (AttributeClass c))) \<and>
            (\<forall>c\<in>set (operations d). m' (dunder_name c) = Some (Entity (OperationClass c))))"
proof -
  let ?cap = "capitalize (unicode_capitalize env) (name d)"
  from assms(4) obtain t' u' d' where
    s: "os_read os (fs w) (loader_path self) = Inr t'"
      "parse_module env t' (loader_path self) = Inr u'"
      "make_dialect env (lookup_symbol env u' (fst (splitext (basename (loader_path self))))) = Inr d'"
      "m' = inject_bindings env d' m"
    by (rule exec_module_success)
  with assms(1-3) have m': "m' = inject_bindings env d m"
    by simp
  have handle: "m' ?cap = Some (DialectObject d)"
    by (simp add: m' inject_bindings_handle)
  have frame: "m' k = m k" if "k \<noteq> ?cap" "k \<notin> entity_name ` set (chain d)" for k
    using that by (simp add: m' inject_bindings_other bind_entities_other)
  have bound: "m' (entity_name obj) = Some (Entity obj)"
    if "distinct (map entity_name (chain d))" "?cap \<notin> entity_name ` set (chain d)"
      "obj \<in> set (chain d)" for obj
  proof -
    from that(2,3) have "entity_name obj \<noteq> ?cap"
      by (metis imageI)
    with that(1,3) show ?thesis
      by (simp add: m' inject_bindings_other bind_entities_distinct)
  qed
  have attrs: "m' (dunder_name c) = Some (Entity (AttributeClass c))"
    if "distinct (map entity_name (chain d))" "?cap \<notin> entity_name ` set (chain d)"
      "c \<in> set (attributes d)" for c
    using bound [OF that(1,2), of "AttributeClass c"] that(3) by (simp add: chain_def)
  have ops: "m' (dunder_name c) = Some (Entity (OperationClass c))"
    if "distinct (map entity_name (chain d))" "?cap \<notin> entity_name ` set (chain d)"
      "c \<in> set (operations d)" for c
    using bound [OF that(1,2), of "OperationClass c"] that(3) by (simp add: chain_def)
  from handle frame attrs ops show ?thesis
    by blast
qed

theorem exec_module_bindings_witness:
  "fst (exec_module demo_os (demo_env arith_dialect) (IRDLDialectLoader ''arith'' ''/d/arith.irdl'')
          (demo_world Map.empty [(''/d/arith.irdl'', ''D arith'')]) [''__name__'' \<mapsto> Object 0]) = None \<and>
   distinct (map entity_name (chain arith_dialect)) \<and>
   capitalize (unicode_capitalize (demo_env arith_dialect)) (name arith_dialect)
     \<notin> entity_name ` set (chain arith_dialect) \<and>
   map (snd (snd (exec_module demo_os (demo_env arith_dialect) (IRDLDialectLoader ''arith'' ''/d/arith.irdl'')
          (demo_world Map.empty [(''/d/arith.irdl'', ''D arith'')]) [''__name__'' \<mapsto> Object 0])))
     [''add'', ''sub'', ''Arith'', ''__name__'', ''mul'']
     = [Some (Entity (OperationClass \<lparr>dunder_name = ''add'', class_id = 1\<rparr>)),
        Some (Entity (OperationClass \<lparr>dunder_name = ''sub'', class_id = 2\<rparr>)),
        Some (DialectObject arith_dialect),
        Some (Object 0),
        None]"
proof -
  let ?self = "IRDLDialectLoader ''arith'' ''/d/arith.irdl''"
  let ?env = "demo_env arith_dialect"
  let ?w = "demo_world Map.empty [(''/d/arith.irdl'', ''D arith'')]"
  let ?m = "[''__name__'' \<mapsto> Object 0]"
  let ?r = "exec_module demo_os ?env ?self ?w ?m"
  have ok: "fst ?r = None"
    by (simp add: demo_run_ok [OF demo_names(2)])
  then obtain w' m' where r: "?r = (None, w', m')"
    by (cases ?r) simp
  have c: "capitalize (unicode_capitalize ?env) (name arith_dialect) = ''Arith''"
    by (simp add: arith_dialect_def demo_capitalize)
  have ch: "chain arith_dialect =
      [OperationClass \<lparr>dunder_name = ''add'', class_id = 1\<rparr>,
       OperationClass \<lparr>dunder_name = ''sub'', class_id = 2\<rparr>]"
    by (simp add: chain_def arith_dialect_def)
  have dist: "distinct (map entity_name (chain arith_dialect))"
    by (simp add: ch)
  have fresh: "capitalize (unicode_capitalize ?env) (name arith_dialect)
      \<notin> entity_name ` set (chain arith_dialect)"
    by (simp add: c ch)
  have ops: "operations arith_dialect =
      [\<lparr>dunder_name = ''add'', class_id = 1\<rparr>, \<lparr>dunder_name = ''sub'', class_id = 2\<rparr>]"
    by (simp add: arith_dialect_def)
  from exec_module_bindings [OF demo_steps [OF demo_names(2) refl] r]
  have "m' ''Arith'' = Some (DialectObject arith_dialect)"
    and "\<forall>k. k \<noteq> ''Arith'' \<and> k \<notin> entity_name ` set (chain arith_dialect) \<longrightarrow> m' k = ?m k"
    and "\<forall>c\<in>set (operations arith_dialect). m' (dunder_name c) = Some (Entity (OperationClass c))"
    using dist fresh unfolding c by blast+
  then have "map m' [''add'', ''sub'', ''Arith'', ''__name__'', ''mul'']
     = [Some (Entity (OperationClass \<lparr>dunder_name = ''add'', class_id = 1\<rparr>)),
        Some (Entity (OperationClass \<lparr>dunder_name = ''sub'', class_id = 2\<rparr>)),
        Some (DialectObject arith_dialect),
        Some (Object 0),
        None]"
    by (simp add: ch ops)
  with r ok dist fresh show ?thesis
    by simp
qed

text \<open>
  C10, as stated: when an attribute class and an operation class share a name, the
  operation class is the one bound in the final module. It fails when that name is
  also the capitalized name of the dialect: the classes are bound first, the dialect
  last, so the final module holds the dialect under that name.
\<close>

theorem exec_module_shared_name_shadowed:
  "fst (exec_module demo_os (demo_env foo_shared_dialect) (IRDLDialectLoader ''foo'' ''/d/foo.irdl'')
          (demo_world Map.empty [(''/d/foo.irdl'', ''D foo'')]) Map.empty) = None \<and>
   attributes foo_shared_dialect = [\<lparr>dunder_name = ''Foo'', class_id = 1\<rparr>] \<and>
   operations foo_shared_dialect = [\<lparr>dunder_name = ''Foo'', class_id = 2\<rparr>] \<and>
   snd (snd (exec_module demo_os (demo_env foo_shared_dialect) (IRDLDialectLoader ''foo'' ''/d/foo.irdl'')
          (demo_world Map.empty [(''/d/foo.irdl'', ''D foo'')]) Map.empty)) ''Foo''
     = Some (DialectObject foo_shared_dialect) \<and>
   snd (snd (exec_module demo_os (demo_env foo_shared_dialect) (IRDLDialectLoader ''foo'' ''/d/foo.irdl'')
          (demo_world Map.empty [(''/d/foo.irdl'', ''D foo'')]) Map.empty)) ''Foo''
     \<noteq> Some (Entity (OperationClass \<lparr>dunder_name = ''Foo'', class_id = 2\<rparr>))"
  by (simp add: demo_run_ok [OF demo_names(1)] inject_bindings_def setattr_def
      foo_shared_dialect_def demo_capitalize)

text \<open>
  C10, amended: the attribute classes are bound before the operation classes, each
  under its \<^verbatim>\<open>__name__\<close>, by plain assignment; so when an attribute class and an
  operation class of the dialect share a name, and that name is not the capitalized
  dialect name (which is bound last, to the dialect), the final module holds under that
  name an operation class, not the attribute class: the last operation class of that
  name in the dialect's order, which is the operation class itself when no other
  operation class has its name.
\<close>

theorem exec_module_operation_wins:
  assumes "os_read os (fs w) (loader_path self) = Inr t"
    and "parse_module env t (loader_path self) = Inr u"
    and "make_dialect env (lookup_symbol env u (fst (splitext (basename (loader_path self))))) = Inr d"
    and "exec_module os env self w m = (None, w', m')"
    and "a \<in> set (attributes d)" and "c \<in> set (operations d)"
    and "dunder_name a = dunder_name c"
    and "dunder_name c \<noteq> capitalize (unicode_capitalize env) (name d)"
  shows "m' (dunder_name a) =
           Some (Entity (OperationClass
             (last (filter (\<lambda>c'. dunder_name c' = dunder_name c) (operations d))))) \<and>
         m' (dunder_name a) \<noteq> Some (Entity (AttributeClass a)) \<and>
         ((\<forall>c'\<in>set (operations d). dunder_name c' = dunder_name c \<longrightarrow> c' = c) \<longrightarrow>
            m' (dunder_name a) = Some (Entity (OperationClass c)))"
proof -
  from assms(4) obtain t' u' d' where
    s: "os_read os (fs w) (loader_path self) = Inr t'"
      "parse_module env t' (loader_path self) = Inr u'"
      "make_dialect env (lookup_symbol env u' (fst (splitext (basename (loader_path self))))) = Inr d'"
      "m' = inject_bindings env d' m"
    by (rule exec_module_success)
  with assms(1-3) have m': "m' = inject_bindings env d m"
    by simp
  let ?Q = "\<lambda>c'. dunder_name c' = dunder_name c"
  let ?P = "\<lambda>obj. entity_name obj = dunder_name c"
  let ?l = "last (filter ?Q (operations d))"
  from assms(6) have ne: "filter ?Q (operations d) \<noteq> []"
    by (auto simp: filter_empty_conv)
  then have "List.find ?Q (rev (operations d)) = Some ?l"
    by (rule find_rev_last)
  then have "List.find ?P (map OperationClass (rev (operations d))) = Some (OperationClass ?l)"
    by (simp add: find_map)
  then have "List.find ?P (rev (chain d)) = Some (OperationClass ?l)"
    by (simp add: chain_def find_app rev_map)
  then have "bind_entities (chain d) m (dunder_name c) = Some (Entity (OperationClass ?l))"
    by (simp add: bind_entities_lookup)
  with assms(7,8) have main: "m' (dunder_name a) = Some (Entity (OperationClass ?l))"
    by (simp add: m' inject_bindings_other)
  have only: "?l = c" if "\<forall>c'\<in>set (operations d). dunder_name c' = dunder_name c \<longrightarrow> c' = c"
  proof -
    from ne have "?l \<in> set (filter ?Q (operations d))"
      by (rule last_in_set)
    with that show ?thesis
      by simp
  qed
  from main only show ?thesis
    by auto
qed

theorem exec_module_operation_wins_witness:
  "fst (exec_module demo_os (demo_env cmath_dialect) (IRDLDialectLoader ''cmath'' ''/d/cmath.irdl'')
          (demo_world Map.empty [(''/d/cmath.irdl'', ''D cmath'')]) Map.empty) = None \<and>
   attributes cmath_dialect = [\<lparr>dunder_name = ''complex'', class_id = 1\<rparr>] \<and>
   operations cmath_dialect =
     [\<lparr>dunder_name = ''complex'', class_id = 2\<rparr>, \<lparr>dunder_name = ''norm'', class_id = 3\<rparr>] \<and>
   ''complex'' \<noteq> capitalize (unicode_capitalize (demo_env cmath_dialect)) (name cmath_dialect) \<and>
   snd (snd (exec_module demo_os (demo_env cmath_dialect) (IRDLDialectLoader ''cmath'' ''/d/cmath.irdl'')
          (demo_world Map.empty [(''/d/cmath.irdl'', ''D cmath'')]) Map.empty)) ''complex''
     = Some (Entity (OperationClass \<lparr>dunder_name = ''complex'', class_id = 2\<rparr>)) \<and>
   fst (exec_module demo_os (demo_env cmath_twice_dialect) (IRDLDialectLoader ''cmath'' ''/d/cmath.irdl'')
          (demo_world Map.empty [(''/d/cmath.irdl'', ''D cmath'')]) Map.empty) = None \<and>
   operations cmath_twice_dialect =
     [\<lparr>dunder_name = ''complex'', class_id = 2\<rparr>, \<lparr>dunder_name = ''norm'', class_id = 3\<rparr>,
      \<lparr>dunder_name = ''complex'', class_id = 4\<rparr>] \<and>
   snd (snd (exec_module demo_os (demo_env cmath_twice_dialect) (IRDLDialectLoader ''cmath'' ''/d/cmath.irdl'')
          (demo_world Map.empty [(''/d/cmath.irdl'', ''D cmath'')]) Map.empty)) ''complex''
     = Some (Entity (OperationClass \<lparr>dunder_name = ''complex'', class_id = 4\<rparr>))"
proof -
  let ?self = "IRDLDialectLoader ''cmath'' ''/d/cmath.irdl''"
  let ?w = "demo_world Map.empty [(''/d/cmath.irdl'', ''D cmath'')]"
  let ?r = "exec_module demo_os (demo_env cmath_dialect) ?self ?w Map.empty"
  let ?q = "exec_module demo_os (demo_env cmath_twice_dialect) ?self ?w Map.empty"
  let ?a = "\<lparr>dunder_name = ''complex'', class_id = 1\<rparr>"
  let ?c = "\<lparr>dunder_name = ''complex'', class_id = 2\<rparr>"
  have ok: "fst ?r = None"
    by (simp add: demo_run_ok [OF demo_names(3)])
  then obtain w' m' where r: "?r = (None, w', m')"
    by (cases ?r) simp
  have ok2: "fst ?q = None"
    by (simp add: demo_run_ok [OF demo_names(3)])
  then obtain v' n' where q: "?q = (None, v', n')"
    by (cases ?q) simp
  have attrs: "attributes cmath_dialect = [?a]"
    and ops: "operations cmath_dialect = [?c, \<lparr>dunder_name = ''norm'', class_id = 3\<rparr>]"
    by (simp_all add: cmath_dialect_def)
  have attrs2: "attributes cmath_twice_dialect = [?a]"
    and ops2: "operations cmath_twice_dialect =
      [?c, \<lparr>dunder_name = ''norm'', class_id = 3\<rparr>, \<lparr>dunder_name = ''complex'', class_id = 4\<rparr>]"
    by (simp_all add: cmath_twice_dialect_def)
  have cap: "capitalize (unicode_capitalize (demo_env cmath_dialect)) (name cmath_dialect) = ''Cmath''"
    by (simp add: cmath_dialect_def demo_capitalize)
  have cap2: "capitalize (unicode_capitalize (demo_env cmath_twice_dialect)) (name cmath_twice_dialect) = ''Cmath''"
    by (simp add: cmath_twice_dialect_def demo_capitalize)
  have a: "?a \<in> set (attributes cmath_dialect)" and c: "?c \<in> set (operations cmath_dialect)"
    by (simp_all add: attrs ops)
  have a2: "?a \<in> set (attributes cmath_twice_dialect)"
    and c2: "?c \<in> set (operations cmath_twice_dialect)"
    by (simp_all add: attrs2 ops2)
  have same: "dunder_name ?a = dunder_name ?c"
    by simp
  have fresh: "dunder_name ?c \<noteq> capitalize (unicode_capitalize (demo_env cmath_dialect)) (name cmath_dialect)"
    by (simp add: cap)
  have fresh2: "dunder_name ?c \<noteq>
      capitalize (unicode_capitalize (demo_env cmath_twice_dialect)) (name cmath_twice_dialect)"
    by (simp add: cap2)
  have only: "\<forall>c'\<in>set (operations cmath_dialect). dunder_name c' = dunder_name ?c \<longrightarrow> c' = ?c"
    by (simp add: ops)
  from exec_module_operation_wins [OF demo_steps [OF demo_names(3) refl] r a c same fresh] only
  have "m' (dunder_name ?a) = Some (Entity (OperationClass ?c))"
    by blast
  then have one: "m' ''complex'' = Some (Entity (OperationClass ?c))"
    by simp
  from exec_module_operation_wins [OF demo_steps [OF demo_names(3) refl] q a2 c2 same fresh2]
  have "n' (dunder_name ?a) = Some (Entity (OperationClass
      (last (filter (\<lambda>c'. dunder_name c' = dunder_name ?c) (operations cmath_twice_dialect)))))"
    by blast
  then have two: "n' ''complex'' = Some (Entity (OperationClass \<lparr>dunder_name = ''complex'', class_id = 4\<rparr>))"
    by (simp add: ops2)
  from r q ok ok2 attrs ops ops2 fresh one two show ?thesis
    by simp
qed

text \<open>
  C3, as stated: the dialect is bound under its name with the first letter upper-cased
  and the remainder unchanged. It fails for a name with an upper-case letter after the
  first: \<^verbatim>\<open>str.capitalize\<close> lower-cases the remainder, so the dialect
  \<open>myDialect\<close> is bound under \<open>Mydialect\<close> and not under \<open>MyDialect\<close>.
\<close>

theorem exec_module_handle_lowercased:
  "fst (exec_module demo_os (demo_env mixed_case_dialect)
          (IRDLDialectLoader ''myDialect'' ''/d/myDialect.irdl'')
          (demo_world Map.empty [(''/d/myDialect.irdl'', ''D myDialect'')]) Map.empty) = None \<and>
   name mixed_case_dialect = ''myDialect'' \<and>
   to_upper (CHR ''m'') # ''yDialect'' = ''MyDialect'' \<and>
   snd (snd (exec_module demo_os (demo_env mixed_case_dialect)
          (IRDLDialectLoader ''myDialect'' ''/d/myDialect.irdl'')
          (demo_world Map.empty [(''/d/myDialect.irdl'', ''D myDialect'')]) Map.empty)) ''MyDialect''
     = None \<and>
   snd (snd (exec_module demo_os (demo_env mixed_case_dialect)
          (IRDLDialectLoader ''myDialect'' ''/d/myDialect.irdl'')
          (demo_world Map.empty [(''/d/myDialect.irdl'', ''D myDialect'')]) Map.empty)) ''Mydialect''
     = Some (DialectObject mixed_case_dialect)"
proof -
  have u: "to_upper (CHR ''m'') = CHR ''M''"
    by code_simp
  show ?thesis
    by (simp add: demo_run_ok [OF demo_names(4)] inject_bindings_def setattr_def chain_def
        mixed_case_dialect_def demo_capitalize u)
qed

text \<open>
  C3, amended: after a successful load that built the dialect \<open>d\<close>, the dialect is
  bound under \<^verbatim>\<open>d.name.capitalize()\<close>. For a name of ASCII characters that is the
  first character of the name upper-cased and the remainder lower-cased, which is the
  first character upper-cased followed by the remainder unchanged exactly when the
  remainder has no upper-case letter. (For a name with a character outside ASCII it
  is what the Unicode case tables give.)
\<close>

theorem exec_module_handle_name:
  assumes "os_read os (fs w) (loader_path self) = Inr t"
    and "parse_module env t (loader_path self) = Inr u"
    and "make_dialect env (lookup_symbol env u (fst (splitext (basename (loader_path self))))) = Inr d"
    and "exec_module os env self w m = (None, w', m')"
    and "name d = c # cs"
  shows "m' (capitalize (unicode_capitalize env) (name d)) = Some (DialectObject d) \<and>
         (list_all is_ascii (name d) \<longrightarrow>
            capitalize (unicode_capitalize env) (name d) = to_upper c # map to_lower cs \<and>
            (capitalize (unicode_capitalize env) (name d) = to_upper c # cs \<longleftrightarrow>
               (\<forall>x\<in>set cs. \<not> is_upper x)))"
proof -
  from assms(4) obtain t' u' d' where
    s: "os_read os (fs w) (loader_path self) = Inr t'"
      "parse_module env t' (loader_path self) = Inr u'"
      "make_dialect env (lookup_symbol env u' (fst (splitext (basename (loader_path self))))) = Inr d'"
      "m' = inject_bindings env d' m"
    by (rule exec_module_success)
  with assms(1-3) have m': "m' = inject_bindings env d m"
    by simp
  have cap: "capitalize (unicode_capitalize env) (name d) = to_upper c # map to_lower cs"
    if "list_all is_ascii (name d)"
    using that assms(5) by (simp add: capitalize_def)
  from inject_bindings_handle [of env d m] cap show ?thesis
    by (auto simp: m' map_to_lower_fixed)
qed

theorem exec_module_handle_name_witness:
  "fst (exec_module demo_os (demo_env arith_dialect) (IRDLDialectLoader ''arith'' ''/d/arith.irdl'')
          (demo_world Map.empty [(''/d/arith.irdl'', ''D arith'')]) Map.empty) = None \<and>
   name arith_dialect = CHR ''a'' # ''rith'' \<and>
   list_all is_ascii (name arith_dialect) \<and>
   to_upper (CHR ''a'') # map to_lower ''rith'' = ''Arith'' \<and>
   list_all (\<lambda>x. \<not> is_upper x) ''rith'' \<and>
   snd (snd (exec_module demo_os (demo_env arith_dialect) (IRDLDialectLoader ''arith'' ''/d/arith.irdl'')
          (demo_world Map.empty [(''/d/arith.irdl'', ''D arith'')]) Map.empty)) ''Arith''
     = Some (DialectObject arith_dialect)"
proof -
  let ?r = "exec_module demo_os (demo_env arith_dialect) (IRDLDialectLoader ''arith'' ''/d/arith.irdl'')
          (demo_world Map.empty [(''/d/arith.irdl'', ''D arith'')]) Map.empty"
  have ok: "fst ?r = None"
    by (simp add: demo_run_ok [OF demo_names(2)])
  then obtain w' m' where r: "?r = (None, w', m')"
    by (cases ?r) simp
  have n: "name arith_dialect = CHR ''a'' # ''rith''"
    by (simp add: arith_dialect_def)
  have asc: "list_all is_ascii (name arith_dialect)"
    unfolding n by code_simp
  have k: "to_upper (CHR ''a'') # map to_lower ''rith'' = ''Arith''"
    by code_simp
  have l: "list_all (\<lambda>x. \<not> is_upper x) ''rith''"
    by code_simp
  from exec_module_handle_name [OF demo_steps [OF demo_names(2) refl] r n] asc
  have "m' (capitalize (unicode_capitalize (demo_env arith_dialect)) (name arith_dialect))
          = Some (DialectObject arith_dialect)"
    and "capitalize (unicode_capitalize (demo_env arith_dialect)) (name arith_dialect)
          = to_upper (CHR ''a'') # map to_lower ''rith''"
    by blast+
  then have "m' (to_upper (CHR ''a'') # map to_lower ''rith'') = Some (DialectObject arith_dialect)"
    by simp
  then have "m' ''Arith'' = Some (DialectObject arith_dialect)"
    unfolding k .
  with r ok n asc k l show ?thesis
    by simp
qed

end
